theory Spec2Isabelle
  imports Complex_Main "HOL-Library.Sublist"
begin

section \<open>Values and exceptions of the script\<close>

text \<open>
  The script \<^verbatim>\<open>src/bin/calc_sim.py\<close> works on whatever \<^verbatim>\<open>json.loads\<close> returns, so
  the model works on parsed JSON values. A Python \<^verbatim>\<open>dict\<close> is the list of its items,
  read with \<open>map_of\<close>; the parser gives every key once. Python's \<^verbatim>\<open>int\<close> is \<open>int\<close>.
  Python's \<^verbatim>\<open>float\<close> is modelled by \<open>real\<close>: arithmetic is exact, so rounding,
  overflow to infinity and NaN are outside the model.
\<close>

datatype json =
    JNull
  | JBool bool
  | JInt int
  | JFloat real
  | JStr string
  | JArr "json list"
  | JObj "(string \<times> json) list"

text \<open>The exceptions that the script and the library calls it makes can raise.\<close>

datatype py_error =
    TypeError
  | KeyError string
  | IndexError
  | AttributeError
  | ValueError string
  | OSError string
  | ZeroDivisionError

text \<open>Sequencing of statements that may raise: the first exception ends the run.\<close>

definition and_then :: "py_error + 'a \<Rightarrow> ('a \<Rightarrow> py_error + 'b) \<Rightarrow> py_error + 'b" where
  "and_then r f = (case r of Inl e \<Rightarrow> Inl e | Inr x \<Rightarrow> f x)"

section \<open>The Python operations the script applies to JSON values\<close>

text \<open>\<^verbatim>\<open>not x\<close> is the negation of the truth value of \<open>x\<close>.\<close>

fun truthy :: "json \<Rightarrow> bool" where
  "truthy JNull = False"
| "truthy (JBool b) = b"
| "truthy (JInt i) = (i \<noteq> 0)"
| "truthy (JFloat r) = (r \<noteq> 0)"
| "truthy (JStr s) = (s \<noteq> [])"
| "truthy (JArr xs) = (xs \<noteq> [])"
| "truthy (JObj kvs) = (kvs \<noteq> [])"

text \<open>
  Iteration (\<^verbatim>\<open>for x in v\<close>, \<^verbatim>\<open>zip\<close>, a generator over \<open>v\<close>): a list gives its
  elements, a string its characters as one-character strings, a dict its keys; any
  other value is not iterable.
\<close>

fun py_iter :: "json \<Rightarrow> py_error + json list" where
  "py_iter (JArr xs) = Inr xs"
| "py_iter (JStr s) = Inr (map (\<lambda>c. JStr [c]) s)"
| "py_iter (JObj kvs) = Inr (map (\<lambda>kv. JStr (fst kv)) kvs)"
| "py_iter _ = Inl TypeError"

text \<open>
  \<^verbatim>\<open>key in v\<close> for a string \<open>key\<close>: a key of a dict, an element of a list, a
  substring of a string; any other value raises.
\<close>

fun py_contains :: "string \<Rightarrow> json \<Rightarrow> py_error + bool" where
  "py_contains k (JObj kvs) = Inr (map_of kvs k \<noteq> None)"
| "py_contains k (JArr xs) = Inr (JStr k \<in> set xs)"
| "py_contains k (JStr s) = Inr (sublist k s)"
| "py_contains k _ = Inl TypeError"

text \<open>\<^verbatim>\<open>v[key]\<close> for a string \<open>key\<close>: only a dict can be subscripted by a string.\<close>

fun py_getitem :: "json \<Rightarrow> string \<Rightarrow> py_error + json" where
  "py_getitem (JObj kvs) k = (case map_of kvs k of None \<Rightarrow> Inl (KeyError k) | Some v \<Rightarrow> Inr v)"
| "py_getitem _ k = Inl TypeError"

text \<open>\<^verbatim>\<open>v.get(key, default)\<close>: only a dict has the method.\<close>

fun py_get :: "json \<Rightarrow> string \<Rightarrow> json \<Rightarrow> py_error + json" where
  "py_get (JObj kvs) k d = (case map_of kvs k of None \<Rightarrow> Inr d | Some v \<Rightarrow> Inr v)"
| "py_get _ k d = Inl AttributeError"

text \<open>The numbers among the JSON values; \<^verbatim>\<open>True\<close> and \<^verbatim>\<open>False\<close> are the integers 1 and 0.\<close>

fun py_num :: "json \<Rightarrow> real option" where
  "py_num (JInt i) = Some (of_int i)"
| "py_num (JFloat r) = Some r"
| "py_num (JBool b) = Some (if b then 1 else 0)"
| "py_num _ = None"

text \<open>
  One term \<^verbatim>\<open>a*b\<close> of a sum that starts at the integer 0. The sum can take the term
  only when both factors are numbers: a product with a string or a list is either a
  \<^verbatim>\<open>TypeError\<close> itself or a sequence that \<^verbatim>\<open>0 + ...\<close> refuses with a \<^verbatim>\<open>TypeError\<close>.
\<close>

definition py_mul :: "json \<Rightarrow> json \<Rightarrow> py_error + real" where
  "py_mul a b =
     (case py_num a of
        None \<Rightarrow> Inl TypeError
      | Some x \<Rightarrow> (case py_num b of None \<Rightarrow> Inl TypeError | Some y \<Rightarrow> Inr (x * y)))"

text \<open>\<^verbatim>\<open>sum(...)\<close> over a generator: the terms are added from the left, the first term that raises ends it.\<close>

fun py_sum :: "real \<Rightarrow> (py_error + real) list \<Rightarrow> py_error + real" where
  "py_sum acc [] = Inr acc"
| "py_sum acc (Inl e # ts) = Inl e"
| "py_sum acc (Inr t # ts) = py_sum (acc + t) ts"

text \<open>\<^verbatim>\<open>math.sqrt\<close> raises on a negative argument.\<close>

definition py_sqrt :: "real \<Rightarrow> py_error + real" where
  "py_sqrt x = (if x < 0 then Inl (ValueError ''math domain error'') else Inr (sqrt x))"

text \<open>Float division raises on a zero divisor.\<close>

definition py_div :: "real \<Rightarrow> real \<Rightarrow> py_error + real" where
  "py_div x y = (if y = 0 then Inl ZeroDivisionError else Inr (x / y))"

section \<open>\<^verbatim>\<open>cosine_similarity\<close>\<close>

definition cosine_similarity :: "json \<Rightarrow> json \<Rightarrow> py_error + real" where
  "cosine_similarity v1 v2 =
     and_then (py_iter v1) (\<lambda>xs.
     and_then (py_iter v2) (\<lambda>ys.
     and_then (py_sum 0 (map (\<lambda>(a, b). py_mul a b) (zip xs ys))) (\<lambda>dot_product.
     and_then (py_sum 0 (map (\<lambda>a. py_mul a a) xs)) (\<lambda>s1.
     and_then (py_sqrt s1) (\<lambda>magnitude1.
     and_then (py_sum 0 (map (\<lambda>b. py_mul b b) ys)) (\<lambda>s2.
     and_then (py_sqrt s2) (\<lambda>magnitude2.
       if magnitude1 = 0 \<or> magnitude2 = 0 then Inr 0
       else py_div dot_product (magnitude1 * magnitude2))))))))"

text \<open>
  A vector in the sense of the specification: a JSON array of numbers, read as the
  list of its values.
\<close>

fun py_vector :: "json \<Rightarrow> real list option" where
  "py_vector (JArr xs) = those (map py_num xs)"
| "py_vector _ = None"

text \<open>
  The numbers a value gives when it is iterated, when it can be iterated and every item
  is a number. It names the inputs on which \<^verbatim>\<open>cosine_similarity\<close> returns.
\<close>

definition iter_nums :: "json \<Rightarrow> real list option" where
  "iter_nums v = (case py_iter v of Inl e \<Rightarrow> None | Inr js \<Rightarrow> those (map py_num js))"

text \<open>The magnitude of a vector of reals, as the script computes it.\<close>

definition magnitude :: "real list \<Rightarrow> real" where
  "magnitude xs = sqrt (\<Sum>a\<leftarrow>xs. a * a)"

section \<open>The ranking loop of \<^verbatim>\<open>main\<close>\<close>

text \<open>One entry of \<^verbatim>\<open>results\<close>: a dict with exactly these four keys.\<close>

record scored_result =
  content :: json
  score :: real
  metadata :: json
  ident :: json

text \<open>
  The body of the loop for one \<open>mem\<close>: \<open>None\<close> is the \<^verbatim>\<open>continue\<close>, \<open>Some r\<close> the
  entry that is appended.
\<close>

definition score_mem :: "json \<Rightarrow> json \<Rightarrow> py_error + scored_result option" where
  "score_mem query_vector mem =
     and_then (py_contains ''embedding'' mem) (\<lambda>has.
       if \<not> has then Inr None
       else and_then (py_getitem mem ''embedding'') (\<lambda>embedding.
         if \<not> truthy embedding then Inr None
         else
           and_then (cosine_similarity query_vector embedding) (\<lambda>s.
           and_then (py_getitem mem ''content'') (\<lambda>c.
           and_then (py_get mem ''metadata'' (JObj [])) (\<lambda>m.
           and_then (py_get mem ''id'' (JStr ''unknown'')) (\<lambda>i.
             Inr (Some \<lparr>content = c, score = s, metadata = m, ident = i\<rparr>)))))))"

text \<open>The loop: \<open>results\<close> grows at its end, the first exception ends the loop.\<close>

fun scan :: "json \<Rightarrow> json list \<Rightarrow> scored_result list \<Rightarrow> py_error + scored_result list" where
  "scan query_vector [] results = Inr results"
| "scan query_vector (mem # mems) results =
     and_then (score_mem query_vector mem) (\<lambda>r.
       case r of
         None \<Rightarrow> scan query_vector mems results
       | Some x \<Rightarrow> scan query_vector mems (results @ [x]))"

text \<open>
  \<^verbatim>\<open>results.sort(key=lambda x: x['score'], reverse=True)\<close>: Python's sort is stable, and
  with \<^verbatim>\<open>reverse=True\<close> entries of equal key keep their order. That is the stable
  ascending sort on the negated key.
\<close>

definition sort_desc :: "scored_result list \<Rightarrow> scored_result list" where
  "sort_desc results = sort_key (\<lambda>x. - score x) results"

text \<open>
  \<^verbatim>\<open>xs[:k]\<close>: the first \<open>k\<close> entries, and for a negative \<open>k\<close> all but the last \<open>-k\<close>.
\<close>

definition py_slice_to :: "'a list \<Rightarrow> int \<Rightarrow> 'a list" where
  "py_slice_to xs k =
     (if 0 \<le> k then take (nat k) xs else take (nat (int (length xs) + k)) xs)"

text \<open>
  Lines 24 to 42 of \<^verbatim>\<open>main\<close>, from the parsed arguments to the list that is printed:
  the operation the specification calls \<open>rank\<close>.
\<close>

definition rank :: "json \<Rightarrow> json \<Rightarrow> int \<Rightarrow> py_error + scored_result list" where
  "rank query_vector memories top_k =
     and_then (py_iter memories) (\<lambda>mems.
     and_then (scan query_vector mems []) (\<lambda>results.
       Inr (py_slice_to (sort_desc results) top_k)))"

text \<open>
  A candidate with a non-empty embedding in the sense of the specification: an object
  whose \<^verbatim>\<open>embedding\<close> is a non-empty array.
\<close>

fun has_embedding :: "json \<Rightarrow> bool" where
  "has_embedding (JObj kvs) =
     (case map_of kvs ''embedding'' of Some (JArr es) \<Rightarrow> es \<noteq> [] | _ \<Rightarrow> False)"
| "has_embedding _ = False"


section \<open>An example run\<close>

text \<open>
  The scenario of the specification, with a tie in the scores, a record without
  \<^verbatim>\<open>id\<close> and \<^verbatim>\<open>metadata\<close>, and a record without \<^verbatim>\<open>embedding\<close> added.
\<close>

definition example_query :: json where
  "example_query = JArr [JInt 1, JInt 0]"

definition example_memories :: "json list" where
  "example_memories =
     [JObj [(''id'', JStr ''a''), (''content'', JStr ''x''), (''embedding'', JArr [JInt 0, JInt 1])],
      JObj [(''id'', JStr ''b''), (''content'', JStr ''y''), (''embedding'', JArr [JInt 1, JInt 0]),
            (''metadata'', JObj [(''k'', JInt 7)])],
      JObj [(''id'', JStr ''c''), (''content'', JStr ''z''), (''embedding'', JArr [])],
      JObj [(''content'', JStr ''w''), (''embedding'', JArr [JFloat 0, JInt 2])],
      JObj [(''id'', JStr ''e''), (''content'', JStr ''v'')]]"

section \<open>\<^verbatim>\<open>main\<close>\<close>

text \<open>
  What \<^verbatim>\<open>main\<close> takes from outside the script: \<^verbatim>\<open>json.loads\<close>, \<^verbatim>\<open>int\<close> on a string,
  reading the text of a file, and \<^verbatim>\<open>str\<close> of an exception.
\<close>

record env =
  loads :: "string \<Rightarrow> py_error + json"
  to_int :: "string \<Rightarrow> py_error + int"
  read_file :: "string \<Rightarrow> py_error + string"
  str_of :: "py_error \<Rightarrow> string"

text \<open>\<^verbatim>\<open>sys.argv[i]\<close>.\<close>

definition argv_at :: "string list \<Rightarrow> nat \<Rightarrow> py_error + string" where
  "argv_at argv i = (if i < length argv then Inr (argv ! i) else Inl IndexError)"

text \<open>The dict of one result as a JSON object, in the order of the literal.\<close>

definition result_json :: "scored_result \<Rightarrow> json" where
  "result_json r =
     JObj [(''content'', content r), (''score'', JFloat (score r)),
           (''metadata'', metadata r), (''id'', ident r)]"

text \<open>
  Standard output is the list of the JSON documents printed so far. The body of the
  \<^verbatim>\<open>try\<close> returns it with the exception, if one was raised.
\<close>

definition try_body :: "env \<Rightarrow> string list \<Rightarrow> json list \<Rightarrow> json list \<times> (py_error + unit)" where
  "try_body E argv out =
     (case
        and_then (argv_at argv 1) (\<lambda>a1.
        and_then (loads E a1) (\<lambda>query_vector.
        and_then (argv_at argv 2) (\<lambda>memory_file.
        and_then (argv_at argv 3) (\<lambda>a3.
        and_then (to_int E a3) (\<lambda>top_k.
        and_then (read_file E memory_file) (\<lambda>txt.
        and_then (loads E txt) (\<lambda>memories.
          rank query_vector memories top_k)))))))
      of
        Inl e \<Rightarrow> (out, Inl e)
      | Inr results \<Rightarrow> (out @ [JArr (map result_json results)], Inr ()))"

definition main :: "env \<Rightarrow> string list \<Rightarrow> json list" where
  "main E argv =
     (case try_body E argv [] of
        (out, Inl e) \<Rightarrow> out @ [JArr [JObj [(''error'', JStr (str_of E e))]]]
      | (out, Inr u) \<Rightarrow> out)"

section \<open>Properties of \<^verbatim>\<open>cosine_similarity\<close>\<close>

lemma and_then_Inr_iff:
  "and_then r f = Inr y \<longleftrightarrow> (\<exists>x. r = Inr x \<and> f x = Inr y)"
  by (cases r) (simp_all add: and_then_def)

lemma and_then_Inr [simp]: "and_then (Inr x) f = f x"
  by (simp add: and_then_def)

lemma and_then_Inl [simp]: "and_then (Inl e) f = Inl e"
  by (simp add: and_then_def)

lemma py_sum_Inr: "py_sum acc (map Inr ts) = Inr (acc + sum_list ts)"
  by (induction ts arbitrary: acc) (simp_all add: add.assoc)


lemma those_eq_Some: "those ys = Some xs \<longleftrightarrow> ys = map Some xs"
  by (induction ys arbitrary: xs) (auto split: option.splits)

lemma iter_nums_Some:
  "iter_nums v = Some xs \<Longrightarrow> \<exists>js. py_iter v = Inr js \<and> map py_num js = map Some xs"
  by (auto simp: iter_nums_def those_eq_Some split: sum.splits)

lemma py_vector_iter_nums: "py_vector v = Some xs \<Longrightarrow> iter_nums v = Some xs"
  by (cases v) (simp_all add: iter_nums_def)

lemma map_py_mul_zip:
  "map py_num js = map Some xs \<Longrightarrow> map py_num ks = map Some ys \<Longrightarrow>
   map (\<lambda>(a, b). py_mul a b) (zip js ks) = map Inr (map (\<lambda>(a, b). a * b) (zip xs ys))"
proof (induction js ks arbitrary: xs ys rule: list_induct2')
  case (4 j js k ks)
  then show ?case by (cases xs; cases ys) (auto simp: py_mul_def)
qed simp_all

lemma map_py_mul_self:
  "map py_num js = map Some xs \<Longrightarrow>
   map (\<lambda>a. py_mul a a) js = map Inr (map (\<lambda>a. a * a) xs)"
  by (induction js arbitrary: xs) (auto simp: py_mul_def)

lemma py_sum_zip_Some:
  "map py_num js = map Some xs \<Longrightarrow> map py_num ks = map Some ys \<Longrightarrow>
   py_sum acc (map (\<lambda>(a, b). py_mul a b) (zip js ks)) = Inr (acc + (\<Sum>(a, b)\<leftarrow>zip xs ys. a * b))"
  unfolding map_py_mul_zip py_sum_Inr by simp

lemma py_sum_self_Some:
  "map py_num js = map Some xs \<Longrightarrow>
   py_sum acc (map (\<lambda>a. py_mul a a) js) = Inr (acc + (\<Sum>a\<leftarrow>xs. a * a))"
  unfolding map_py_mul_self py_sum_Inr by simp

lemma sum_sq_nonneg: "0 \<le> (\<Sum>a\<leftarrow>xs. a * a)" for xs :: "real list"
  by (induction xs) simp_all

lemma cosine_similarity_nums:
  assumes "iter_nums v1 = Some xs" "iter_nums v2 = Some ys"
  shows "cosine_similarity v1 v2 =
     Inr (if magnitude xs = 0 \<or> magnitude ys = 0 then 0
          else (\<Sum>(a, b)\<leftarrow>zip xs ys. a * b) / (magnitude xs * magnitude ys))"
proof -
  from assms obtain js ks where
    j: "py_iter v1 = Inr js" "map py_num js = map Some xs" and
    k: "py_iter v2 = Inr ks" "map py_num ks = map Some ys"
    using iter_nums_Some by blast
  have d: "py_sum 0 (map (\<lambda>(a, b). py_mul a b) (zip js ks)) = Inr (\<Sum>(a, b)\<leftarrow>zip xs ys. a * b)"
    by (simp add: py_sum_zip_Some [OF j(2) k(2)])
  have s1: "py_sum 0 (map (\<lambda>a. py_mul a a) js) = Inr (\<Sum>a\<leftarrow>xs. a * a)"
    by (simp add: py_sum_self_Some [OF j(2)])
  have s2: "py_sum 0 (map (\<lambda>a. py_mul a a) ks) = Inr (\<Sum>a\<leftarrow>ys. a * a)"
    by (simp add: py_sum_self_Some [OF k(2)])
  have n1: "\<not> (\<Sum>a\<leftarrow>xs. a * a) < 0" and n2: "\<not> (\<Sum>a\<leftarrow>ys. a * a) < 0"
    using sum_sq_nonneg [of xs] sum_sq_nonneg [of ys] by simp_all
  show ?thesis
    by (simp add: cosine_similarity_def and_then_def j(1) k(1) d s1 s2 n1 n2 py_sqrt_def
        py_div_def magnitude_def)
qed


lemma py_iter_error: "py_iter v = Inl e \<Longrightarrow> e = TypeError"
  by (cases v) simp_all

lemma py_mul_error: "py_mul a b = Inl e \<Longrightarrow> e = TypeError"
  by (auto simp: py_mul_def split: option.splits)

lemma py_sum_error: "py_sum acc ts = Inl e \<Longrightarrow> Inl e \<in> set ts"
  by (induction acc ts rule: py_sum.induct) auto

lemma py_sum_zip_error: "py_sum acc (map (\<lambda>(a, b). py_mul a b) ps) = Inl e \<Longrightarrow> e = TypeError"
  by (auto dest!: py_sum_error dest: py_mul_error[OF sym])

lemma py_sum_self_None:
  "those (map py_num js) = None \<Longrightarrow> py_sum acc (map (\<lambda>a. py_mul a a) js) = Inl TypeError"
proof (induction js arbitrary: acc)
  case (Cons j js)
  then show ?case by (cases "py_num j") (auto simp: py_mul_def split: option.splits)
qed simp

lemma dot_abs_le:
  "\<bar>\<Sum>(a, b)\<leftarrow>zip xs ys. a * b\<bar> \<le> magnitude xs * magnitude ys"
proof (induction xs ys rule: list_induct2')
  case (4 x xs y ys)
  let ?d = "\<Sum>(a, b)\<leftarrow>zip xs ys. a * b"
  let ?A = "\<Sum>a\<leftarrow>xs. a * a" and ?B = "\<Sum>a\<leftarrow>ys. a * a"
  have A: "0 \<le> ?A" and B: "0 \<le> ?B" by (rule sum_sq_nonneg)+
  have ih: "\<bar>?d\<bar> \<le> sqrt ?A * sqrt ?B" using 4 by (simp add: magnitude_def)
  define u where "u = \<bar>x\<bar> * sqrt ?B"
  define v where "v = \<bar>y\<bar> * sqrt ?A"
  have "x * y * ?d \<le> \<bar>x * y\<bar> * \<bar>?d\<bar>"
    by (metis abs_ge_self abs_mult)
  also have "\<dots> \<le> \<bar>x * y\<bar> * (sqrt ?A * sqrt ?B)"
    using ih by (rule mult_left_mono) simp
  also have "\<dots> = u * v" by (simp add: u_def v_def abs_mult)
  finally have xyd: "x * y * ?d \<le> u * v" .
  have "0 \<le> (u - v)\<^sup>2" by simp
  then have uv: "2 * (u * v) \<le> u\<^sup>2 + v\<^sup>2" by (simp add: power2_diff)
  have u2: "u\<^sup>2 = x * x * ?B" and v2: "v\<^sup>2 = y * y * ?A"
    using A B by (simp_all add: u_def v_def power_mult_distrib) (simp_all add: power2_eq_square)
  have "\<bar>?d\<bar>\<^sup>2 \<le> (sqrt ?A * sqrt ?B)\<^sup>2"
    using ih by (rule power_mono) simp
  then have d2: "?d * ?d \<le> ?A * ?B"
    using A B by (simp add: power_mult_distrib) (simp add: power2_eq_square)
  have "(x * y + ?d)\<^sup>2 = x * x * (y * y) + 2 * (x * y * ?d) + ?d * ?d"
    by (simp add: power2_eq_square algebra_simps)
  also have "\<dots> \<le> x * x * (y * y) + (x * x * ?B + y * y * ?A) + ?A * ?B"
    using xyd uv d2 u2 v2 by linarith
  also have "\<dots> = (x * x + ?A) * (y * y + ?B)"
    by (simp add: algebra_simps)
  finally have "(x * y + ?d)\<^sup>2 \<le> (x * x + ?A) * (y * y + ?B)" .
  then have "\<bar>x * y + ?d\<bar> \<le> sqrt ((x * x + ?A) * (y * y + ?B))"
    using real_le_rsqrt by fastforce
  then show ?case by (simp add: magnitude_def real_sqrt_mult)
qed (simp_all add: magnitude_def sum_sq_nonneg)


lemma cosine_similarity_cases:
  "cosine_similarity v1 v2 =
     (case iter_nums v1 of
        None \<Rightarrow> Inl TypeError
      | Some xs \<Rightarrow>
          (case iter_nums v2 of
             None \<Rightarrow> Inl TypeError
           | Some ys \<Rightarrow>
               Inr (if magnitude xs = 0 \<or> magnitude ys = 0 then 0
                    else (\<Sum>(a, b)\<leftarrow>zip xs ys. a * b) / (magnitude xs * magnitude ys))))"
proof (cases "py_iter v1")
  case (Inl e)
  then show ?thesis
    by (simp add: cosine_similarity_def and_then_def iter_nums_def py_iter_error [OF Inl])
next
  case j: (Inr js)
  show ?thesis
  proof (cases "py_iter v2")
    case (Inl e)
    then show ?thesis
      by (simp add: cosine_similarity_def and_then_def iter_nums_def j py_iter_error [OF Inl]
          split: option.splits)
  next
    case k: (Inr ks)
    show ?thesis
    proof (cases "those (map py_num js)")
      case None
      then show ?thesis
        by (auto simp: cosine_similarity_def and_then_def iter_nums_def j k py_sum_self_None
            split: sum.splits dest: py_sum_zip_error)
    next
      case sj: (Some xs)
      show ?thesis
      proof (cases "those (map py_num ks)")
        case None
        have "py_sum 0 (map (\<lambda>a. py_mul a a) js) = Inr (\<Sum>a\<leftarrow>xs. a * a)"
          using sj py_sum_self_Some [of js xs 0] by (simp add: those_eq_Some)
        moreover have "py_sqrt (\<Sum>a\<leftarrow>xs. a * a) = Inr (sqrt (\<Sum>a\<leftarrow>xs. a * a))"
          using sum_sq_nonneg [of xs] by (simp add: py_sqrt_def)
        ultimately show ?thesis
          using None sj
          by (auto simp: cosine_similarity_def and_then_def iter_nums_def j k py_sum_self_None
              split: sum.splits dest: py_sum_zip_error)
      next
        case (Some ys)
        then show ?thesis
          using sj cosine_similarity_nums [of v1 xs v2 ys] by (simp add: iter_nums_def j k)
      qed
    qed
  qed
qed

lemma dot_zip_commute:
  "(\<Sum>(a, b)\<leftarrow>zip xs ys. a * b) = (\<Sum>(a, b)\<leftarrow>zip ys xs. a * b)" for xs ys :: "real list"
  by (induction xs ys rule: list_induct2') (simp_all add: mult.commute)



lemma magnitude_nonneg: "0 \<le> magnitude xs"
  by (simp add: magnitude_def sum_sq_nonneg)

lemma cosine_bounded:
  "\<bar>if magnitude xs = 0 \<or> magnitude ys = 0 then 0
    else (\<Sum>(a, b)\<leftarrow>zip xs ys. a * b) / (magnitude xs * magnitude ys)\<bar> \<le> 1"
  using dot_abs_le [of xs ys] magnitude_nonneg [of xs] magnitude_nonneg [of ys]
  by (auto simp: abs_mult divide_le_eq_1)

section \<open>Claims about \<^verbatim>\<open>cosine_similarity\<close>\<close>





text \<open>
  The bound of the specification's data model, which claim C9 takes up: in the exact
  arithmetic of this model every value that \<^verbatim>\<open>cosine_similarity\<close> returns lies in the
  closed interval from -1 to 1, and on two vectors, of equal length or not, it does
  return a value. The script computes in double precision, where the rounding of the
  square roots and of their product can carry the quotient past 1; that is not
  expressed here.
\<close>

theorem cosine_similarity_in_unit_interval:
  "(cosine_similarity v1 v2 = Inr s \<longrightarrow> - 1 \<le> s \<and> s \<le> 1) \<and>
   (py_vector v1 \<noteq> None \<and> py_vector v2 \<noteq> None \<longrightarrow> (\<exists>r. cosine_similarity v1 v2 = Inr r))"
proof (intro conjI impI)
  assume "cosine_similarity v1 v2 = Inr s"
  then obtain xs ys where
    "s = (if magnitude xs = 0 \<or> magnitude ys = 0 then 0
          else (\<Sum>(a, b)\<leftarrow>zip xs ys. a * b) / (magnitude xs * magnitude ys))"
    by (auto simp: cosine_similarity_cases split: option.splits)
  then have "\<bar>s\<bar> \<le> 1" using cosine_bounded [of xs ys] by simp
  then show "- 1 \<le> s" and "s \<le> 1" by simp_all
next
  assume "py_vector v1 \<noteq> None \<and> py_vector v2 \<noteq> None"
  then show "\<exists>r. cosine_similarity v1 v2 = Inr r"
    using cosine_similarity_nums py_vector_iter_nums by blast
qed

theorem cosine_similarity_in_unit_interval_witness:
  "cosine_similarity (JArr [JInt 1, JInt 0]) (JArr [JInt (- 1), JInt 0, JInt 0]) = Inr (- 1) \<and>
   - 1 \<le> (- 1 :: real) \<and> (- 1 :: real) \<le> 1"
  using cosine_similarity_in_unit_interval [of "JArr [JInt 1, JInt 0]" "JArr [JInt (- 1), JInt 0, JInt 0]" "- 1"]
    cosine_similarity_nums [of "JArr [JInt 1, JInt 0]" "[1, 0]" "JArr [JInt (- 1), JInt 0, JInt 0]" "[- 1, 0, 0]"]
  by (simp add: magnitude_def iter_nums_def)

text \<open>
  Claim C10. \<^verbatim>\<open>cosine_similarity\<close> gives the same outcome with its arguments swapped, on
  all inputs: vectors of equal or unequal length, zero vectors, and inputs on which it
  raises.
\<close>

theorem cosine_similarity_commutes: "cosine_similarity v1 v2 = cosine_similarity v2 v1"
  by (auto simp: cosine_similarity_cases [of v1 v2] cosine_similarity_cases [of v2 v1]
      dot_zip_commute [of "xs" "ys" for xs ys] mult.commute split: option.splits)

theorem cosine_similarity_commutes_witness:
  "cosine_similarity (JArr [JInt 3, JInt 4]) (JArr [JFloat 1]) =
   cosine_similarity (JArr [JFloat 1]) (JArr [JInt 3, JInt 4])"
  by (rule cosine_similarity_commutes)

section \<open>Properties of the ranking loop\<close>

lemma cosine_similarity_Inr_nums:
  "cosine_similarity v1 v2 = Inr s \<Longrightarrow> \<exists>ys. iter_nums v2 = Some ys"
  by (auto simp: cosine_similarity_cases split: option.splits)

lemma truthy_iter_nums:
  "truthy emb \<Longrightarrow> iter_nums emb = Some ys \<Longrightarrow> \<exists>es. emb = JArr es \<and> es \<noteq> []"
proof (cases emb)
  case (JStr s)
  assume "truthy emb" "iter_nums emb = Some ys"
  then show ?thesis using JStr by (cases s) (simp_all add: iter_nums_def)
next
  case (JObj kvs)
  assume "truthy emb" "iter_nums emb = Some ys"
  then show ?thesis using JObj by (cases kvs) (simp_all add: iter_nums_def)
qed (simp_all add: iter_nums_def)

lemma score_mem_Some_has_embedding:
  assumes "score_mem q mem = Inr (Some r)"
  shows "has_embedding mem"
proof (cases mem)
  case (JObj kvs)
  from assms obtain emb s where
    e: "map_of kvs ''embedding'' = Some emb" "truthy emb" "cosine_similarity q emb = Inr s"
    unfolding score_mem_def JObj
    by (auto simp: and_then_Inr_iff split: if_splits option.splits)
  then obtain es where "emb = JArr es" "es \<noteq> []"
    using cosine_similarity_Inr_nums truthy_iter_nums by blast
  then show ?thesis using e(1) JObj by simp
next
  case (JArr xs)
  then show ?thesis using assms by (simp add: score_mem_def split: if_splits)
next
  case (JStr s)
  then show ?thesis using assms by (simp add: score_mem_def split: if_splits)
qed (use assms in \<open>simp_all add: score_mem_def\<close>)


lemma scan_append:
  "scan q (xs @ ys) acc = and_then (scan q xs acc) (\<lambda>r. scan q ys r)"
proof (induction xs arbitrary: acc)
  case (Cons x xs)
  then show ?case
    by (cases "score_mem q x") (simp_all split: option.splits)
qed simp


lemma py_slice_to_take: "\<exists>n. py_slice_to xs k = take n xs"
  by (auto simp: py_slice_to_def)

lemma rank_Inr:
  "rank q (JArr mems) k = Inr out \<longleftrightarrow>
     (\<exists>results. scan q mems [] = Inr results \<and> out = py_slice_to (sort_desc results) k)"
  by (auto simp: rank_def and_then_Inr_iff)



lemma scan_tagged:
  "scan q mems acc = Inr res \<Longrightarrow>
   \<exists>T. res = acc @ map snd T \<and> sorted_wrt (<) (map fst T) \<and>
       (\<forall>t\<in>set T. fst t < length mems \<and> score_mem q (mems ! fst t) = Inr (Some (snd t)))"
proof (induction mems arbitrary: res rule: rev_induct)
  case Nil
  then show ?case by (intro exI [of _ "[]"]) simp
next
  case (snoc m ms)
  from snoc.prems obtain res' where
    r': "scan q ms acc = Inr res'" and last: "scan q [m] res' = Inr res"
    by (auto simp: scan_append and_then_Inr_iff)
  from snoc.IH [OF r'] obtain T where
    T: "res' = acc @ map snd T" "sorted_wrt (<) (map fst T)"
       "\<forall>t\<in>set T. fst t < length ms \<and> score_mem q (ms ! fst t) = Inr (Some (snd t))"
    by blast
  from last obtain sr where sr: "score_mem q m = Inr sr"
    by (auto simp: and_then_Inr_iff)
  show ?case
  proof (cases sr)
    case None
    then have "res = res'" using last sr by simp
    then show ?thesis
      using T by (intro exI [of _ T]) (auto simp: nth_append)
  next
    case (Some r)
    then have "res = res' @ [r]" using last sr by simp
    then show ?thesis
      using T sr Some
      by (intro exI [of _ "T @ [(length ms, r)]"]) (auto simp: nth_append sorted_wrt_append)
  qed
qed





lemma score_mem_skip:
  "map_of kvs ''embedding'' = None \<or> map_of kvs ''embedding'' = Some (JArr []) \<Longrightarrow>
   score_mem q (JObj kvs) = Inr None"
  by (auto simp: score_mem_def)

lemma scan_skip:
  "score_mem q mem = Inr None \<Longrightarrow> scan q (xs @ mem # ys) acc = scan q (xs @ ys) acc"
  by (simp add: scan_append)

lemma rank_result_origin:
  assumes "rank q (JArr mems) k = Inr out" "r \<in> set out"
  shows "\<exists>mem\<in>set mems. has_embedding mem \<and> score_mem q mem = Inr (Some r)"
proof -
  from assms(1) obtain results where
    sc: "scan q mems [] = Inr results" and out: "out = py_slice_to (sort_desc results) k"
    by (auto simp: rank_Inr)
  obtain n where "out = take n (sort_desc results)"
    using out py_slice_to_take by metis
  then have "r \<in> set (sort_desc results)"
    using assms(2) in_set_takeD by metis
  then have "r \<in> set results" by (simp add: sort_desc_def)
  with scan_tagged [OF sc] obtain i where
    "i < length mems" "score_mem q (mems ! i) = Inr (Some r)"
    by fastforce
  then show ?thesis
    using score_mem_Some_has_embedding nth_mem by blast
qed






lemma rank_example:
  "rank example_query (JArr example_memories) k =
     Inr (py_slice_to
       [\<lparr>content = JStr ''y'', score = 1, metadata = JObj [(''k'', JInt 7)], ident = JStr ''b''\<rparr>,
        \<lparr>content = JStr ''x'', score = 0, metadata = JObj [], ident = JStr ''a''\<rparr>,
        \<lparr>content = JStr ''w'', score = 0, metadata = JObj [], ident = JStr ''unknown''\<rparr>] k)"
  by (simp add: rank_def score_mem_def cosine_similarity_def py_mul_def py_sqrt_def py_div_def
      sort_desc_def example_query_def example_memories_def)

lemma main_raise:
  "snd (try_body E argv []) = Inl e \<Longrightarrow>
   main E argv = [JArr [JObj [(''error'', JStr (str_of E e))]]]"
  by (auto simp: main_def try_body_def split: sum.splits)

section \<open>Claims about the ranking\<close>










text \<open>
  Claim C5. A record whose \<^verbatim>\<open>embedding\<close> is missing or is the empty array is skipped
  by the loop, for every query, also one that could not be scored; the ranking with
  the record is the ranking without it, results and exceptions alike. And every result
  of a ranking is the result of a candidate with a non-empty embedding.
\<close>

theorem rank_excludes_no_embedding:
  "(map_of kvs ''embedding'' = None \<or> map_of kvs ''embedding'' = Some (JArr []) \<longrightarrow>
      score_mem q (JObj kvs) = Inr None \<and>
      rank q (JArr (xs @ JObj kvs # ys)) k = rank q (JArr (xs @ ys)) k) \<and>
   (rank q (JArr mems) k = Inr out \<and> r \<in> set out \<longrightarrow>
      (\<exists>mem\<in>set mems. has_embedding mem \<and> score_mem q mem = Inr (Some r)))"
  using rank_result_origin [of q mems k out r] score_mem_skip [of kvs q]
  by (auto simp: rank_def scan_skip)

theorem rank_excludes_no_embedding_witness:
  "score_mem JNull (JObj [(''id'', JStr ''c''), (''content'', JStr ''z''), (''embedding'', JArr [])]) = Inr None \<and>
   score_mem JNull (JObj [(''id'', JStr ''e''), (''content'', JStr ''v'')]) = Inr None \<and>
   rank example_query
     (JArr ([JObj [(''id'', JStr ''b''), (''content'', JStr ''y''), (''embedding'', JArr [JInt 1, JInt 0])]] @
            JObj [(''id'', JStr ''c''), (''content'', JStr ''z''), (''embedding'', JArr [])] # [])) 2 =
   rank example_query
     (JArr ([JObj [(''id'', JStr ''b''), (''content'', JStr ''y''), (''embedding'', JArr [JInt 1, JInt 0])]] @ [])) 2 \<and>
   (\<exists>mem\<in>set example_memories. has_embedding mem \<and>
      score_mem example_query mem =
        Inr (Some \<lparr>content = JStr ''w'', score = 0, metadata = JObj [], ident = JStr ''unknown''\<rparr>))"
proof -
  let ?c = "[(''id'', JStr ''c''), (''content'', JStr ''z''), (''embedding'', JArr [])]"
  let ?b = "JObj [(''id'', JStr ''b''), (''content'', JStr ''y''), (''embedding'', JArr [JInt 1, JInt 0])]"
  let ?out = "[\<lparr>content = JStr ''y'', score = 1, metadata = JObj [(''k'', JInt 7)], ident = JStr ''b''\<rparr>,
          \<lparr>content = JStr ''x'', score = 0, metadata = JObj [], ident = JStr ''a''\<rparr>,
          \<lparr>content = JStr ''w'', score = 0, metadata = JObj [], ident = JStr ''unknown''\<rparr>]"
  have run: "rank example_query (JArr example_memories) 3 = Inr ?out"
    by (simp add: rank_example py_slice_to_def)
  have "score_mem JNull (JObj ?c) = Inr None"
    using rank_excludes_no_embedding [of ?c JNull "[]" "[]" 2 "[]" "[]"] by simp
  moreover have "score_mem JNull (JObj [(''id'', JStr ''e''), (''content'', JStr ''v'')]) = Inr None"
    using rank_excludes_no_embedding [of "[(''id'', JStr ''e''), (''content'', JStr ''v'')]" JNull "[]" "[]" 2 "[]" "[]"]
    by simp
  moreover have "rank example_query (JArr ([?b] @ JObj ?c # [])) 2 = rank example_query (JArr ([?b] @ [])) 2"
    using rank_excludes_no_embedding [of ?c example_query "[?b]" "[]" 2 "[]" "[]"] by simp
  moreover have "\<exists>mem\<in>set example_memories. has_embedding mem \<and>
      score_mem example_query mem =
        Inr (Some \<lparr>content = JStr ''w'', score = 0, metadata = JObj [], ident = JStr ''unknown''\<rparr>)"
    using rank_excludes_no_embedding [of "[]" example_query "[]" "[]" 3 example_memories ?out
        "\<lparr>content = JStr ''w'', score = 0, metadata = JObj [], ident = JStr ''unknown''\<rparr>"] run
    by simp
  ultimately show ?thesis by blast
qed

section \<open>Claims about \<^verbatim>\<open>main\<close>\<close>

text \<open>
  Claim C8. When the command line is too short, or parsing the query, parsing top-K,
  reading the file or parsing its text raises, or the ranking raises, then the body
  of the \<^verbatim>\<open>try\<close> raises an exception, and everything \<^verbatim>\<open>main\<close> prints is one document: the
  array of one object whose only key \<^verbatim>\<open>error\<close> holds the text of that exception.
\<close>

theorem main_error_output:
  assumes "length argv < 4 \<or> (\<exists>e. loads E (argv ! 1) = Inl e) \<or> (\<exists>e. to_int E (argv ! 3) = Inl e) \<or>
     (\<exists>e. read_file E (argv ! 2) = Inl e) \<or>
     (\<exists>txt e. read_file E (argv ! 2) = Inr txt \<and> loads E txt = Inl e) \<or>
     (\<exists>qv k txt ms e. loads E (argv ! 1) = Inr qv \<and> to_int E (argv ! 3) = Inr k \<and>
        read_file E (argv ! 2) = Inr txt \<and> loads E txt = Inr ms \<and> rank qv ms k = Inl e)"
  shows "\<exists>e. snd (try_body E argv []) = Inl e \<and>
     main E argv = [JArr [JObj [(''error'', JStr (str_of E e))]]]"
proof -
  have "\<exists>e. snd (try_body E argv []) = Inl e"
    using assms
    by (auto simp: try_body_def argv_at_def and_then_def split: sum.splits)
  then show ?thesis using main_raise by blast
qed

theorem main_error_output_witness:
  "main \<lparr>loads = (\<lambda>s. Inl (ValueError ''Expecting value'')), to_int = (\<lambda>s. Inr 2),
         read_file = (\<lambda>s. Inr ''[]''),
         str_of = (\<lambda>e. case e of ValueError msg \<Rightarrow> msg | _ \<Rightarrow> ''other'')\<rparr>
     [''calc_sim.py'', ''not json'', ''memory.json'', ''2''] =
   [JArr [JObj [(''error'', JStr ''Expecting value'')]]] \<and>
   main \<lparr>loads = (\<lambda>s. if s = ''[1]'' then Inr (JArr [JInt 1]) else Inr JNull), to_int = (\<lambda>s. Inr 2),
         read_file = (\<lambda>s. Inr ''null''),
         str_of = (\<lambda>e. case e of TypeError \<Rightarrow> ''not iterable'' | _ \<Rightarrow> ''other'')\<rparr>
     [''calc_sim.py'', ''[1]'', ''memory.json'', ''2''] =
   [JArr [JObj [(''error'', JStr ''not iterable'')]]]"
  using main_error_output [of "[''calc_sim.py'', ''not json'', ''memory.json'', ''2'']"
      "\<lparr>loads = (\<lambda>s. Inl (ValueError ''Expecting value'')), to_int = (\<lambda>s. Inr 2),
         read_file = (\<lambda>s. Inr ''[]''),
         str_of = (\<lambda>e. case e of ValueError msg \<Rightarrow> msg | _ \<Rightarrow> ''other'')\<rparr>"]
    main_error_output [of "[''calc_sim.py'', ''[1]'', ''memory.json'', ''2'']"
      "\<lparr>loads = (\<lambda>s. if s = ''[1]'' then Inr (JArr [JInt 1]) else Inr JNull), to_int = (\<lambda>s. Inr 2),
         read_file = (\<lambda>s. Inr ''null''),
         str_of = (\<lambda>e. case e of TypeError \<Rightarrow> ''not iterable'' | _ \<Rightarrow> ''other'')\<rparr>"]
  by (auto simp: try_body_def argv_at_def rank_def)

end
